theory Spec2Isabelle
  imports Main "HOL-Library.Word" "HOL-Library.AList"
begin

unbundle bit_operations_syntax

section \<open>Python values\<close>

text \<open>
  A Python \<open>str\<close> is a sequence of Unicode code points, a \<open>bytes\<close> object a sequence of
  octets. String literals of the source are written with \<open>lit\<close>.
\<close>

type_synonym pystr = "nat list"

type_synonym byte = "8 word"

definition lit :: "string \<Rightarrow> pystr" where
  "lit s = map of_char s"

text \<open>
  The values that travel through the server are JSON-shaped Python objects: \<open>None\<close>,
  booleans, integers, strings, lists and dicts with string keys. A dict keeps its insertion
  order, so it is an association list. Floats are not part of this model.
\<close>

datatype pyval =
    PNone
  | PBool bool
  | PInt int
  | PStr pystr
  | PList "pyval list"
  | PDict "(pystr \<times> pyval) list"

text \<open>
  Exceptions are values. Each carries the text that \<open>str(e)\<close> gives; for a \<open>KeyError\<close> the
  payload is the missing key. These are the exceptions of class \<open>Exception\<close> that the
  socket, codec and JSON libraries and the dispatch code raise; \<open>KeyboardInterrupt\<close> and
  \<open>SystemExit\<close>, which an \<open>except Exception\<close> clause does not catch, are outside the model.
\<close>

datatype exn =
    OSError pystr
  | UnicodeEncodeError pystr
  | UnicodeDecodeError pystr
  | JSONDecodeError pystr
  | KeyError pystr
  | AttributeError pystr

fun exn_str :: "exn \<Rightarrow> pystr" where
  "exn_str (OSError m) = m"
| "exn_str (UnicodeEncodeError m) = m"
| "exn_str (UnicodeDecodeError m) = m"
| "exn_str (JSONDecodeError m) = m"
| "exn_str (KeyError k) = lit [CHR 0x27] @ k @ lit [CHR 0x27]"
| "exn_str (AttributeError m) = m"

section \<open>Library functions used by the server\<close>

subsection \<open>Formatting numbers\<close>

fun digits :: "nat \<Rightarrow> pystr" where
  "digits n = (if n < 10 then [48 + n] else digits (n div 10) @ [48 + n mod 10])"

declare digits.simps [simp del]

definition int_repr :: "int \<Rightarrow> pystr" where
  "int_repr i = (if i < 0 then 45 # digits (nat (- i)) else digits (nat i))"

definition hexdigit :: "nat \<Rightarrow> nat" where
  "hexdigit d = (if d < 10 then 48 + d else 87 + d)"

definition hex4 :: "nat \<Rightarrow> pystr" where
  "hex4 n = [hexdigit (n div 4096 mod 16), hexdigit (n div 256 mod 16),
             hexdigit (n div 16 mod 16), hexdigit (n mod 16)]"

subsection \<open>\<open>str(x)\<close> and truthiness\<close>

text \<open>
  \<open>str\<close> of a scalar is modelled exactly. The text Python prints for a list or a dict
  (their \<open>repr\<close>) is not modelled; it is taken from the parameter \<open>container_str\<close>.
\<close>

fun py_str :: "(pyval \<Rightarrow> pystr) \<Rightarrow> pyval \<Rightarrow> pystr" where
  "py_str container_str PNone = lit ''None''"
| "py_str container_str (PBool b) = (if b then lit ''True'' else lit ''False'')"
| "py_str container_str (PInt i) = int_repr i"
| "py_str container_str (PStr s) = s"
| "py_str container_str v = container_str v"

fun py_truthy :: "pyval \<Rightarrow> bool" where
  "py_truthy PNone = False"
| "py_truthy (PBool b) = b"
| "py_truthy (PInt i) = (i \<noteq> 0)"
| "py_truthy (PStr s) = (s \<noteq> [])"
| "py_truthy (PList xs) = (xs \<noteq> [])"
| "py_truthy (PDict kvs) = (kvs \<noteq> [])"

fun type_name :: "pyval \<Rightarrow> pystr" where
  "type_name PNone = lit ''NoneType''"
| "type_name (PBool b) = lit ''bool''"
| "type_name (PInt i) = lit ''int''"
| "type_name (PStr s) = lit ''str''"
| "type_name (PList xs) = lit ''list''"
| "type_name (PDict kvs) = lit ''dict''"

text \<open>\<open>d.get(key, default)\<close>; only a dict has the method.\<close>

fun py_get :: "pyval \<Rightarrow> pystr \<Rightarrow> pyval \<Rightarrow> exn + pyval" where
  "py_get (PDict kvs) key dflt =
     Inr (case map_of kvs key of None \<Rightarrow> dflt | Some v \<Rightarrow> v)"
| "py_get v key dflt =
     Inl (AttributeError (lit [CHR 0x27] @ type_name v @ lit [CHR 0x27]
            @ lit '' object has no attribute '' @ lit [CHR 0x27] @ lit ''get''
            @ lit [CHR 0x27]))"

subsection \<open>\<open>json.dumps\<close>\<close>

text \<open>
  The encoder of the standard library with its defaults: \<open>ensure_ascii\<close> is on, so every
  code point outside the printable ASCII range, the quote and the backslash are escaped.
\<close>

definition escape_char :: "nat \<Rightarrow> pystr" where
  "escape_char n =
    (if n = 0x5C then lit [CHR 0x5C, CHR 0x5C]
     else if n = 0x22 then lit [CHR 0x5C, CHR 0x22]
     else if n = 0x08 then lit [CHR 0x5C, CHR ''b'']
     else if n = 0x0C then lit [CHR 0x5C, CHR ''f'']
     else if n = 0x0A then lit [CHR 0x5C, CHR ''n'']
     else if n = 0x0D then lit [CHR 0x5C, CHR ''r'']
     else if n = 0x09 then lit [CHR 0x5C, CHR ''t'']
     else if 0x20 \<le> n \<and> n \<le> 0x7E then [n]
     else if n < 0x10000 then lit [CHR 0x5C, CHR ''u''] @ hex4 n
     else (let m = n - 0x10000;
               s1 = 0xD800 OR (drop_bit 10 m AND 0x3FF);
               s2 = 0xDC00 OR (m AND 0x3FF)
           in lit [CHR 0x5C, CHR ''u''] @ hex4 s1 @ lit [CHR 0x5C, CHR ''u''] @ hex4 s2))"

definition encode_basestring_ascii :: "pystr \<Rightarrow> pystr" where
  "encode_basestring_ascii s = 0x22 # concat (map escape_char s) @ [0x22]"

fun join :: "pystr \<Rightarrow> pystr list \<Rightarrow> pystr" where
  "join sep [] = []"
| "join sep [x] = x"
| "join sep (x # y # ys) = x @ sep @ join sep (y # ys)"

text \<open>
  \<open>indent\<close> is \<open>None\<close> for the compact form and \<open>Some k\<close> for pretty printing with \<open>k\<close>
  spaces a level; \<open>lvl\<close> is the current nesting depth.
\<close>

definition newline_indent :: "nat option \<Rightarrow> nat \<Rightarrow> pystr" where
  "newline_indent indent lvl =
     (case indent of None \<Rightarrow> [] | Some k \<Rightarrow> 0x0A # replicate (k * lvl) 0x20)"

definition item_separator :: "nat option \<Rightarrow> nat \<Rightarrow> pystr" where
  "item_separator indent lvl =
     (case indent of None \<Rightarrow> lit '', '' | Some k \<Rightarrow> lit '','' @ newline_indent indent lvl)"

fun iterencode :: "nat option \<Rightarrow> nat \<Rightarrow> pyval \<Rightarrow> pystr" where
  "iterencode indent lvl PNone = lit ''null''"
| "iterencode indent lvl (PBool b) = (if b then lit ''true'' else lit ''false'')"
| "iterencode indent lvl (PInt i) = int_repr i"
| "iterencode indent lvl (PStr s) = encode_basestring_ascii s"
| "iterencode indent lvl (PList xs) =
     (if xs = [] then lit ''[]''
      else lit ''['' @ newline_indent indent (lvl + 1)
           @ join (item_separator indent (lvl + 1)) (map (iterencode indent (lvl + 1)) xs)
           @ newline_indent indent lvl @ lit '']'')"
| "iterencode indent lvl (PDict kvs) =
     (if kvs = [] then lit ''{}''
      else lit ''{'' @ newline_indent indent (lvl + 1)
           @ join (item_separator indent (lvl + 1))
               (map (\<lambda>(k, v). encode_basestring_ascii k @ lit '': ''
                                @ iterencode indent (lvl + 1) v) kvs)
           @ newline_indent indent lvl @ lit ''}'')"

definition json_dumps :: "pyval \<Rightarrow> pystr" where
  "json_dumps v = iterencode None 0 v"

definition json_dumps_indent :: "nat \<Rightarrow> pyval \<Rightarrow> pystr" where
  "json_dumps_indent k v = iterencode (Some k) 0 v"

subsection \<open>\<open>str.encode("utf-8")\<close> and \<open>str.strip()\<close>\<close>

definition is_surrogate :: "nat \<Rightarrow> bool" where
  "is_surrogate n = (0xD800 \<le> n \<and> n \<le> 0xDFFF)"

definition utf8_char :: "nat \<Rightarrow> byte list" where
  "utf8_char n =
    (if n < 0x80 then [of_nat n]
     else if n < 0x800 then
       [of_nat (0xC0 OR drop_bit 6 n), of_nat (0x80 OR (n AND 0x3F))]
     else if n < 0x10000 then
       [of_nat (0xE0 OR drop_bit 12 n), of_nat (0x80 OR (drop_bit 6 n AND 0x3F)),
        of_nat (0x80 OR (n AND 0x3F))]
     else
       [of_nat (0xF0 OR drop_bit 18 n), of_nat (0x80 OR (drop_bit 12 n AND 0x3F)),
        of_nat (0x80 OR (drop_bit 6 n AND 0x3F)), of_nat (0x80 OR (n AND 0x3F))])"

text \<open>
  A lone surrogate cannot be encoded; Python reports the run of surrogates that starts at
  the first offending position.
\<close>

definition surrogate_message :: "pystr \<Rightarrow> pystr" where
  "surrogate_message s =
    (let start = length (takeWhile (\<lambda>n. \<not> is_surrogate n) s);
         run = length (takeWhile is_surrogate (drop start s))
     in lit [CHR 0x27] @ lit ''utf-8'' @ lit [CHR 0x27] @ lit '' codec can''
        @ lit [CHR 0x27] @ lit ''t encode ''
        @ (if run = 1
           then lit ''character '' @ lit [CHR 0x27, CHR 0x5C, CHR ''u''] @ hex4 (s ! start)
                @ lit [CHR 0x27] @ lit '' in position '' @ digits start
           else lit ''characters in position '' @ digits start @ lit ''-''
                @ digits (start + run - 1))
        @ lit '': surrogates not allowed'')"

definition utf8_encode :: "pystr \<Rightarrow> exn + byte list" where
  "utf8_encode s =
    (if list_ex is_surrogate s then Inl (UnicodeEncodeError (surrogate_message s))
     else Inr (concat (map utf8_char s)))"

definition is_space :: "nat \<Rightarrow> bool" where
  "is_space n =
    ((0x09 \<le> n \<and> n \<le> 0x0D) \<or> (0x1C \<le> n \<and> n \<le> 0x20) \<or> n = 0x85 \<or> n = 0xA0
     \<or> n = 0x1680 \<or> (0x2000 \<le> n \<and> n \<le> 0x200A) \<or> n = 0x2028 \<or> n = 0x2029
     \<or> n = 0x202F \<or> n = 0x205F \<or> n = 0x3000)"

definition py_strip :: "pystr \<Rightarrow> pystr" where
  "py_strip s = rev (dropWhile is_space (rev (dropWhile is_space s)))"

text \<open>
  Decoding bytes and parsing JSON text are library functions whose behaviour the server
  does not depend on; they are parameters of the model, with \<open>container_str\<close>.
\<close>

record pylib =
  utf8_decode :: "byte list \<Rightarrow> exn + pystr"
  json_loads :: "pystr \<Rightarrow> exn + pyval"
  container_str :: "pyval \<Rightarrow> pystr"

section \<open>Sockets and the operating system\<close>

text \<open>
  A socket object is known by its configuration. Every call into the socket library is
  recorded as an event; the events of an operation, in order, are its trace.
\<close>

record socket =
  timeout :: "nat option"
  peer :: "(pystr \<times> nat) option"

definition new_socket :: socket where
  "new_socket = \<lparr>timeout = None, peer = None\<rparr>"

datatype io_event =
    EvSocket
  | EvSettimeout nat
  | EvConnect pystr nat
  | EvSendall "byte list"
  | EvRecv nat
  | EvClose

text \<open>
  What the operating system does during one operation of the client: for each call, the
  exception it raises, if any; for \<open>recv\<close>, the result of the \<open>i\<close>-th call. An empty chunk
  is the peer closing the stream.
\<close>

datatype recv_result = Received "byte list" | RecvRaises exn

record os_behaviour =
  socket_raises :: "exn option"
  settimeout_raises :: "exn option"
  connect_raises :: "exn option"
  sendall_raises :: "exn option"
  recv_results :: "nat \<Rightarrow> recv_result"
  close_raises :: "exn option"

section \<open>ReClassClient\<close>

definition RECLASS_HOST :: pystr where
  "RECLASS_HOST = lit ''127.0.0.1''"

definition RECLASS_PORT :: nat where
  "RECLASS_PORT = 27015"

record ReClassClient =
  host :: pystr
  port :: nat
  sock :: "socket option"

definition init_client :: ReClassClient where
  "init_client = \<lparr>host = RECLASS_HOST, port = RECLASS_PORT, sock = None\<rparr>"

text \<open>
  A method returns the client after the call, the trace of the call, and either the
  exception that leaves the method or its return value.
\<close>

type_synonym 'a outcome = "ReClassClient \<times> io_event list \<times> (exn + 'a)"

text \<open>The body of the \<open>try\<close> block of \<open>connect\<close>.\<close>

definition connect_try :: "os_behaviour \<Rightarrow> ReClassClient \<Rightarrow> bool outcome" where
  "connect_try os c =
    (case socket_raises os of
       Some e \<Rightarrow> (c, [EvSocket], Inl e)
     | None \<Rightarrow>
        (let c1 = c\<lparr>sock := Some new_socket\<rparr> in
         case settimeout_raises os of
           Some e \<Rightarrow> (c1, [EvSocket, EvSettimeout 10], Inl e)
         | None \<Rightarrow>
            (let c2 = c1\<lparr>sock := Some (new_socket\<lparr>timeout := Some 10\<rparr>)\<rparr>;
                 t = [EvSocket, EvSettimeout 10, EvConnect (host c) (port c)] in
             case connect_raises os of
               Some e \<Rightarrow> (c2, t, Inl e)
             | None \<Rightarrow>
                (c2\<lparr>sock := Some \<lparr>timeout = Some 10, peer = Some (host c, port c)\<rparr>\<rparr>,
                 t, Inr True))))"

definition connect :: "os_behaviour \<Rightarrow> ReClassClient \<Rightarrow> bool outcome" where
  "connect os c =
    (case connect_try os c of
       (c', t, Inl e) \<Rightarrow> (c'\<lparr>sock := None\<rparr>, t, Inr False)
     | (c', t, Inr b) \<Rightarrow> (c', t, Inr b))"

definition disconnect :: "os_behaviour \<Rightarrow> ReClassClient \<Rightarrow> unit outcome" where
  "disconnect os c =
    (case sock c of
       None \<Rightarrow> (c, [], Inr ())
     | Some s \<Rightarrow>
        (case close_raises os of
           Some e \<Rightarrow> (c\<lparr>sock := None\<rparr>, [EvClose], Inr ())
         | None \<Rightarrow> (c\<lparr>sock := None\<rparr>, [EvClose], Inr ())))"


text \<open>
  The read loop of \<open>send_command\<close>. It may run forever (a peer that keeps sending data
  without a line terminator), so it returns an option: \<open>None\<close> is the loop that never
  ends. The result carries the number of \<open>recv\<close> calls made so far.
\<close>

partial_function (option) recv_loop ::
  "(nat \<Rightarrow> recv_result) \<Rightarrow> nat \<Rightarrow> byte list \<Rightarrow> ((exn + byte list) \<times> nat) option" where
  "recv_loop rs i response =
    (case rs i of
       RecvRaises e \<Rightarrow> Some (Inl e, Suc i)
     | Received chunk \<Rightarrow>
        if chunk = [] then Some (Inr response, Suc i)
        else (let response' = response @ chunk in
              if 0x0A \<in> set response' then Some (Inr response', Suc i)
              else recv_loop rs (Suc i) response'))"

definition failure :: "pystr \<Rightarrow> pyval" where
  "failure message = PDict [(lit ''success'', PBool False), (lit ''error'', PStr message)]"

text \<open>\<open>{"command": command, "args": args or {}}\<close>\<close>

definition request :: "pystr \<Rightarrow> (pystr \<times> pyval) list option \<Rightarrow> pyval" where
  "request command args =
     PDict [(lit ''command'', PStr command),
            (lit ''args'', PDict (case args of None \<Rightarrow> []
                                  | Some d \<Rightarrow> if d = [] then [] else d))]"

text \<open>The body of the \<open>try\<close> block of \<open>send_command\<close>; it does not touch the client.\<close>

definition send_command_try ::
  "pylib \<Rightarrow> os_behaviour \<Rightarrow> pyval \<Rightarrow> (io_event list \<times> (exn + pyval)) option" where
  "send_command_try lib os req =
    (case utf8_encode (json_dumps req @ [0x0A]) of
       Inl e \<Rightarrow> Some ([], Inl e)
     | Inr data \<Rightarrow>
        (case sendall_raises os of
           Some e \<Rightarrow> Some ([EvSendall data], Inl e)
         | None \<Rightarrow>
            (case recv_loop (recv_results os) 0 [] of
               None \<Rightarrow> None
             | Some (r, n) \<Rightarrow>
                (let t = EvSendall data # replicate n (EvRecv 4096) in
                 case r of
                   Inl e \<Rightarrow> Some (t, Inl e)
                 | Inr response \<Rightarrow>
                    (case utf8_decode lib response of
                       Inl e \<Rightarrow> Some (t, Inl e)
                     | Inr txt \<Rightarrow>
                        (case json_loads lib (py_strip txt) of
                           Inl e \<Rightarrow> Some (t, Inl e)
                         | Inr v \<Rightarrow> Some (t, Inr v)))))))"

definition send_command ::
  "pylib \<Rightarrow> os_behaviour \<Rightarrow> ReClassClient \<Rightarrow> pystr \<Rightarrow> (pystr \<times> pyval) list option
     \<Rightarrow> pyval outcome option" where
  "send_command lib os c command args =
    (case (if sock c = None then connect os c else (c, [], Inr True)) of
       (c1, t1, Inl e) \<Rightarrow> Some (c1, t1, Inl e)
     | (c1, t1, Inr False) \<Rightarrow>
         Some (c1, t1, Inr (failure (lit ''Failed to connect to ReClass.NET plugin'')))
     | (c1, t1, Inr True) \<Rightarrow>
        (case send_command_try lib os (request command args) of
           None \<Rightarrow> None
         | Some (t2, Inr v) \<Rightarrow> Some (c1, t1 @ t2, Inr v)
         | Some (t2, Inl e) \<Rightarrow>
            (case disconnect os c1 of
               (c2, t3, Inl e') \<Rightarrow> Some (c2, t1 @ t2 @ t3, Inl e')
             | (c2, t3, Inr u) \<Rightarrow> Some (c2, t1 @ t2 @ t3, Inr (failure (exn_str e))))))"


section \<open>Tool registry and dispatch\<close>

text \<open>
  A tool descriptor: its name and its input schema (the type of each property and the
  names of the required ones). The descriptions are prose and are left out.
\<close>

datatype json_type = TString | TInteger

record Tool =
  tool_name :: pystr
  properties :: "(pystr \<times> json_type) list"
  required :: "pystr list"

definition list_tools :: "Tool list" where
  "list_tools =
    [\<lparr>tool_name = lit ''IsConnected'', properties = [], required = []\<rparr>,
     \<lparr>tool_name = lit ''GetStatus'', properties = [], required = []\<rparr>,
     \<lparr>tool_name = lit ''GetProcessInfo'', properties = [], required = []\<rparr>,
     \<lparr>tool_name = lit ''ReadMemory'',
      properties = [(lit ''address'', TString), (lit ''size'', TInteger)],
      required = [lit ''address'', lit ''size'']\<rparr>,
     \<lparr>tool_name = lit ''WriteMemory'',
      properties = [(lit ''address'', TString), (lit ''data'', TString)],
      required = [lit ''address'', lit ''data'']\<rparr>,
     \<lparr>tool_name = lit ''GetModules'', properties = [], required = []\<rparr>,
     \<lparr>tool_name = lit ''GetSections'', properties = [], required = []\<rparr>,
     \<lparr>tool_name = lit ''GetClasses'', properties = [], required = []\<rparr>,
     \<lparr>tool_name = lit ''GetClass'',
      properties = [(lit ''identifier'', TString)], required = [lit ''identifier'']\<rparr>,
     \<lparr>tool_name = lit ''GetNodes'',
      properties = [(lit ''class_id'', TString)], required = [lit ''class_id'']\<rparr>,
     \<lparr>tool_name = lit ''ParseAddress'',
      properties = [(lit ''formula'', TString)], required = [lit ''formula'']\<rparr>,
     \<lparr>tool_name = lit ''CreateClass'',
      properties = [(lit ''name'', TString), (lit ''address'', TString)],
      required = [lit ''name'']\<rparr>,
     \<lparr>tool_name = lit ''AddNode'',
      properties = [(lit ''class_id'', TString), (lit ''type'', TString),
                    (lit ''name'', TString)],
      required = [lit ''class_id'', lit ''type'']\<rparr>,
     \<lparr>tool_name = lit ''RenameNode'',
      properties = [(lit ''class_id'', TString), (lit ''node_index'', TInteger),
                    (lit ''name'', TString)],
      required = [lit ''class_id'', lit ''node_index'', lit ''name'']\<rparr>,
     \<lparr>tool_name = lit ''SetComment'',
      properties = [(lit ''class_id'', TString), (lit ''node_index'', TInteger),
                    (lit ''comment'', TString)],
      required = [lit ''class_id'', lit ''node_index'', lit ''comment'']\<rparr>,
     \<lparr>tool_name = lit ''ChangeNodeType'',
      properties = [(lit ''class_id'', TString), (lit ''node_index'', TInteger),
                    (lit ''type'', TString)],
      required = [lit ''class_id'', lit ''node_index'', lit ''type'']\<rparr>]"

definition tool_names :: "pystr list" where
  "tool_names = map tool_name list_tools"

record TextContent =
  content_type :: pystr
  content_text :: pystr

definition text_content :: "pystr \<Rightarrow> TextContent" where
  "text_content s = \<lparr>content_type = lit ''text'', content_text = s\<rparr>"

text \<open>\<open>arguments[key]\<close> raises \<open>KeyError\<close> when the key is missing.\<close>

definition subscript :: "(pystr \<rightharpoonup> pyval) \<Rightarrow> pystr \<Rightarrow> exn + pyval" where
  "subscript arguments key =
     (case arguments key of None \<Rightarrow> Inl (KeyError key) | Some v \<Rightarrow> Inr v)"

text \<open>
  A dict display \<open>{k1: e1, k2: e2, ...}\<close> evaluates its entries from left to right; the
  first entry that raises ends it.
\<close>

fun dict_display :: "(pystr \<times> (exn + pyval)) list \<Rightarrow> exn + (pystr \<times> pyval) list" where
  "dict_display [] = Inr []"
| "dict_display ((k, Inl e) # rest) = Inl e"
| "dict_display ((k, Inr v) # rest) =
     (case dict_display rest of Inl e \<Rightarrow> Inl e | Inr d \<Rightarrow> Inr ((k, v) # d))"

text \<open>\<open>[TextContent(type="text", text=json.dumps(result, indent=2))]\<close>\<close>

definition dump_result :: "pyval outcome option \<Rightarrow> TextContent list outcome option" where
  "dump_result r =
    (case r of
       None \<Rightarrow> None
     | Some (c', t, Inl e) \<Rightarrow> Some (c', t, Inl e)
     | Some (c', t, Inr result) \<Rightarrow>
         Some (c', t, Inr [text_content (json_dumps_indent 2 result)]))"

text \<open>
  The shape shared by every branch but the first and the last: evaluate the argument
  dict, call \<open>client.send_command\<close>, and dump the result.
\<close>

definition relay ::
  "pylib \<Rightarrow> os_behaviour \<Rightarrow> ReClassClient \<Rightarrow> pystr \<Rightarrow> exn + (pystr \<times> pyval) list
     \<Rightarrow> TextContent list outcome option" where
  "relay lib os c command args =
    (case args of
       Inl e \<Rightarrow> Some (c, [], Inl e)
     | Inr d \<Rightarrow> dump_result (send_command lib os c command (Some d)))"

definition call_tool ::
  "pylib \<Rightarrow> os_behaviour \<Rightarrow> ReClassClient \<Rightarrow> pystr \<Rightarrow> (pystr \<rightharpoonup> pyval)
     \<Rightarrow> TextContent list outcome option" where
  "call_tool lib os c name arguments =
    (if name = lit ''IsConnected'' then
       (case send_command lib os c (lit ''ping'') None of
          None \<Rightarrow> None
        | Some (c', t, Inl e) \<Rightarrow> Some (c', t, Inl e)
        | Some (c', t, Inr result) \<Rightarrow>
           (case py_get result (lit ''success'') PNone of
              Inl e \<Rightarrow> Some (c', t, Inl e)
            | Inr s \<Rightarrow>
               if py_truthy s
               then Some (c', t, Inr [text_content (lit ''Connected to ReClass.NET plugin'')])
               else (case py_get result (lit ''error'') (PStr (lit ''Unknown error'')) of
                       Inl e \<Rightarrow> Some (c', t, Inl e)
                     | Inr err \<Rightarrow>
                        Some (c', t, Inr [text_content (lit ''Not connected: ''
                                            @ py_str (container_str lib) err)]))))
     else if name = lit ''GetStatus'' then
       dump_result (send_command lib os c (lit ''get_status'') None)
     else if name = lit ''GetProcessInfo'' then
       dump_result (send_command lib os c (lit ''get_process_info'') None)
     else if name = lit ''ReadMemory'' then
       relay lib os c (lit ''read_memory'')
         (dict_display
           [(lit ''address'', subscript arguments (lit ''address'')),
            (lit ''size'', map_sum id (\<lambda>v. PStr (py_str (container_str lib) v))
                             (subscript arguments (lit ''size'')))])
     else if name = lit ''WriteMemory'' then
       relay lib os c (lit ''write_memory'')
         (dict_display
           [(lit ''address'', subscript arguments (lit ''address'')),
            (lit ''data'', subscript arguments (lit ''data''))])
     else if name = lit ''GetModules'' then
       dump_result (send_command lib os c (lit ''get_modules'') None)
     else if name = lit ''GetSections'' then
       dump_result (send_command lib os c (lit ''get_sections'') None)
     else if name = lit ''GetClasses'' then
       dump_result (send_command lib os c (lit ''get_classes'') None)
     else if name = lit ''GetClass'' then
       relay lib os c (lit ''get_class'')
         (dict_display [(lit ''id'', subscript arguments (lit ''identifier''))])
     else if name = lit ''GetNodes'' then
       relay lib os c (lit ''get_nodes'')
         (dict_display [(lit ''class_id'', subscript arguments (lit ''class_id''))])
     else if name = lit ''ParseAddress'' then
       relay lib os c (lit ''parse_address'')
         (dict_display [(lit ''formula'', subscript arguments (lit ''formula''))])
     else if name = lit ''CreateClass'' then
       relay lib os c (lit ''create_class'')
         (case dict_display [(lit ''name'', subscript arguments (lit ''name''))] of
            Inl e \<Rightarrow> Inl e
          | Inr args \<Rightarrow>
             (case arguments (lit ''address'') of
                None \<Rightarrow> Inr args
              | Some a \<Rightarrow> Inr (AList.update (lit ''address'') a args)))
     else if name = lit ''AddNode'' then
       relay lib os c (lit ''add_node'')
         (case dict_display
                 [(lit ''class_id'', subscript arguments (lit ''class_id'')),
                  (lit ''type'', subscript arguments (lit ''type''))] of
            Inl e \<Rightarrow> Inl e
          | Inr args \<Rightarrow>
             (case arguments (lit ''name'') of
                None \<Rightarrow> Inr args
              | Some a \<Rightarrow> Inr (AList.update (lit ''name'') a args)))
     else if name = lit ''RenameNode'' then
       relay lib os c (lit ''rename_node'')
         (dict_display
           [(lit ''class_id'', subscript arguments (lit ''class_id'')),
            (lit ''node_index'', subscript arguments (lit ''node_index'')),
            (lit ''name'', subscript arguments (lit ''name''))])
     else if name = lit ''SetComment'' then
       relay lib os c (lit ''set_comment'')
         (dict_display
           [(lit ''class_id'', subscript arguments (lit ''class_id'')),
            (lit ''node_index'', subscript arguments (lit ''node_index'')),
            (lit ''comment'', subscript arguments (lit ''comment''))])
     else if name = lit ''ChangeNodeType'' then
       relay lib os c (lit ''change_node_type'')
         (dict_display
           [(lit ''class_id'', subscript arguments (lit ''class_id'')),
            (lit ''node_index'', subscript arguments (lit ''node_index'')),
            (lit ''type'', subscript arguments (lit ''type''))])
     else Some (c, [], Inr [text_content (lit ''Unknown tool: '' @ name)]))"

section \<open>Observing a call\<close>

definition client_of :: "'a outcome \<Rightarrow> ReClassClient" where
  "client_of r = fst r"

definition trace_of :: "'a outcome \<Rightarrow> io_event list" where
  "trace_of r = fst (snd r)"

definition result_of :: "'a outcome \<Rightarrow> exn + 'a" where
  "result_of r = snd (snd r)"

text \<open>The byte strings handed to \<open>sendall\<close> in a trace, in order.\<close>

definition sent :: "io_event list \<Rightarrow> byte list list" where
  "sent t = concat (map (\<lambda>ev. case ev of EvSendall d \<Rightarrow> [d] | _ \<Rightarrow> []) t)"

text \<open>
  \<open>send_command\<close> gets past its first step when the client has a connection or
  \<open>connect\<close> returns \<open>True\<close>.
\<close>

definition reaches_exchange :: "os_behaviour \<Rightarrow> ReClassClient \<Rightarrow> bool" where
  "reaches_exchange os c = (sock c \<noteq> None \<or> result_of (connect os c) = Inr True)"

text \<open>
  An exchange succeeds with \<open>v\<close> when the write goes through, the read loop ends with a
  response, and the response decodes and parses to \<open>v\<close>.
\<close>

definition exchange_returns :: "pylib \<Rightarrow> os_behaviour \<Rightarrow> pyval \<Rightarrow> bool" where
  "exchange_returns lib os v =
    (case sendall_raises os of
       Some e \<Rightarrow> False
     | None \<Rightarrow>
        (case recv_loop (recv_results os) 0 [] of
           None \<Rightarrow> False
         | Some (Inl e, n) \<Rightarrow> False
         | Some (Inr response, n) \<Rightarrow>
            (case utf8_decode lib response of
               Inl e \<Rightarrow> False
             | Inr txt \<Rightarrow> json_loads lib (py_strip txt) = Inr v)))"

text \<open>
  The read loop seen from outside: the buffer after \<open>n\<close> reads, and whether the \<open>j\<close>-th
  read makes the loop go on (a non-empty chunk that leaves the buffer without a line
  terminator) or end normally (an empty chunk, or a line terminator in the buffer).
\<close>

definition chunk_of :: "recv_result \<Rightarrow> byte list" where
  "chunk_of r = (case r of Received chunk \<Rightarrow> chunk | RecvRaises e \<Rightarrow> [])"

definition buffer_after :: "(nat \<Rightarrow> recv_result) \<Rightarrow> nat \<Rightarrow> byte list" where
  "buffer_after rs n = concat (map (\<lambda>j. chunk_of (rs j)) [0..<n])"

definition keeps_reading :: "(nat \<Rightarrow> recv_result) \<Rightarrow> nat \<Rightarrow> bool" where
  "keeps_reading rs j =
    (case rs j of
       Received chunk \<Rightarrow> chunk \<noteq> [] \<and> 0x0A \<notin> set (buffer_after rs (Suc j))
     | RecvRaises e \<Rightarrow> False)"

definition stops_reading :: "(nat \<Rightarrow> recv_result) \<Rightarrow> nat \<Rightarrow> bool" where
  "stops_reading rs j =
    (case rs j of
       Received chunk \<Rightarrow> chunk = [] \<or> 0x0A \<in> set (buffer_after rs (Suc j))
     | RecvRaises e \<Rightarrow> False)"

definition loop_exit :: "(nat \<Rightarrow> recv_result) \<Rightarrow> (exn + byte list) \<times> nat \<Rightarrow> bool" where
  "loop_exit rs y =
     (\<exists>k. snd y = Suc k \<and> (\<forall>j<k. keeps_reading rs j)
        \<and> (case fst y of
              Inr buf \<Rightarrow> stops_reading rs k \<and> buf = buffer_after rs (Suc k)
            | Inl e \<Rightarrow> rs k = RecvRaises e))"

text \<open>
  Stripping, said without the code: a text made of white space \<open>a\<close>, a core \<open>s\<close> and white
  space \<open>b\<close> strips to \<open>s\<close> when \<open>s\<close> is empty or neither begins nor ends with white space.
\<close>

definition strips_to :: "pystr \<Rightarrow> pystr \<Rightarrow> pystr \<Rightarrow> bool" where
  "strips_to a s b =
     (list_all is_space a \<and> list_all is_space b
      \<and> (s = [] \<or> (\<not> is_space (hd s) \<and> \<not> is_space (last s))))"

text \<open>
  Where an exchange can raise, in terms of what the operating system and the library do:
  the write raises; or the write succeeds, the first \<open>k\<close> reads make the loop go on and the
  next read raises; or the loop ends normally at that read and decoding the buffer raises;
  or the buffer decodes to a text \<open>a @ s @ b\<close> that strips to \<open>s\<close>, and parsing \<open>s\<close> raises.
\<close>

definition write_raises :: "os_behaviour \<Rightarrow> exn \<Rightarrow> bool" where
  "write_raises os e = (sendall_raises os = Some e)"

definition reads_until :: "os_behaviour \<Rightarrow> nat \<Rightarrow> bool" where
  "reads_until os k =
     (sendall_raises os = None \<and> (\<forall>j<k. keeps_reading (recv_results os) j))"

definition read_raises :: "os_behaviour \<Rightarrow> nat \<Rightarrow> exn \<Rightarrow> bool" where
  "read_raises os k e = (reads_until os k \<and> recv_results os k = RecvRaises e)"

definition decode_raises :: "pylib \<Rightarrow> os_behaviour \<Rightarrow> nat \<Rightarrow> exn \<Rightarrow> bool" where
  "decode_raises lib os k e =
     (reads_until os k \<and> stops_reading (recv_results os) k
      \<and> utf8_decode lib (buffer_after (recv_results os) (Suc k)) = Inl e)"

definition parse_raises ::
  "pylib \<Rightarrow> os_behaviour \<Rightarrow> nat \<Rightarrow> pystr \<Rightarrow> pystr \<Rightarrow> pystr \<Rightarrow> exn \<Rightarrow> bool" where
  "parse_raises lib os k a s b e =
     (reads_until os k \<and> stops_reading (recv_results os) k
      \<and> utf8_decode lib (buffer_after (recv_results os) (Suc k)) = Inr (a @ s @ b)
      \<and> strips_to a s b \<and> json_loads lib s = Inl e)"

text \<open>The outcome of a call whose trace comes after the events \<open>t0\<close>.\<close>

definition prepend_trace :: "io_event list \<Rightarrow> 'a outcome \<Rightarrow> 'a outcome" where
  "prepend_trace t0 r = (fst r, t0 @ fst (snd r), snd (snd r))"

definition printable :: "pystr \<Rightarrow> bool" where
  "printable s = list_all (\<lambda>n. 0x20 \<le> n \<and> n \<le> 0x7E) s"

section \<open>Example environments\<close>

text \<open>
  A peer that answers with the scripted chunks; once the script is over the socket's
  timeout strikes.
\<close>

definition scripted :: "recv_result list \<Rightarrow> nat \<Rightarrow> recv_result" where
  "scripted rs i =
     (if i < length rs then rs ! i else RecvRaises (OSError (lit ''timed out'')))"

definition peer_os :: "recv_result list \<Rightarrow> os_behaviour" where
  "peer_os rs = \<lparr>socket_raises = None, settimeout_raises = None, connect_raises = None,
                 sendall_raises = None, recv_results = scripted rs, close_raises = None\<rparr>"

definition refusing_os :: os_behaviour where
  "refusing_os =
     (peer_os [])\<lparr>connect_raises := Some (OSError (lit ''[Errno 111] Connection refused''))\<rparr>"

definition broken_pipe_os :: os_behaviour where
  "broken_pipe_os =
     (peer_os [])\<lparr>sendall_raises := Some (OSError (lit ''[Errno 32] Broken pipe'')),
                  close_raises := Some (OSError (lit ''[Errno 9] Bad file descriptor''))\<rparr>"

text \<open>The line a peer sends to answer with the value \<open>v\<close>.\<close>

definition line_of :: "pyval \<Rightarrow> byte list" where
  "line_of v = map of_nat (json_dumps v) @ [0x0A]"

text \<open>
  A library for the examples. It decodes ASCII, and for other input reports the first byte
  outside ASCII as an invalid start byte; it parses exactly the texts of the values in its
  table and rejects any other text as one that does not begin a JSON value. It agrees with
  Python's \<open>bytes.decode\<close> and \<open>json.loads\<close> on the inputs of the examples: ASCII
  responses and the byte \<open>0xff\<close>, the texts of the table's values and the text \<open>oops\<close>.
\<close>

definition ascii_decode :: "byte list \<Rightarrow> exn + pystr" where
  "ascii_decode bs =
     (if list_all (\<lambda>b. b < 0x80) bs then Inr (map unat bs)
      else Inl (UnicodeDecodeError
             (lit [CHR 0x27] @ lit ''utf-8'' @ lit [CHR 0x27] @ lit '' codec can''
              @ lit [CHR 0x27] @ lit ''t decode byte 0x''
              @ (case dropWhile (\<lambda>b. b < 0x80) bs of
                   [] \<Rightarrow> []
                 | b # rest \<Rightarrow> [hexdigit (unat b div 16), hexdigit (unat b mod 16)])
              @ lit '' in position '' @ digits (length (takeWhile (\<lambda>b. b < 0x80) bs))
              @ lit '': invalid start byte'')))"

definition loads_table :: "pyval list \<Rightarrow> pystr \<Rightarrow> exn + pyval" where
  "loads_table table s =
     (case find (\<lambda>v. json_dumps v = s) table of
        Some v \<Rightarrow> Inr v
      | None \<Rightarrow> Inl (JSONDecodeError (lit ''Expecting value: line 1 column 1 (char 0)'')))"

definition example_lib :: "pyval list \<Rightarrow> pylib" where
  "example_lib table = \<lparr>utf8_decode = ascii_decode, json_loads = loads_table table,
                         container_str = (\<lambda>v. lit ''...'')\<rparr>"

definition connected_client :: ReClassClient where
  "connected_client =
     init_client\<lparr>sock := Some \<lparr>timeout = Some 10, peer = Some (RECLASS_HOST, RECLASS_PORT)\<rparr>\<rparr>"

text \<open>A peer that sends one chunk without a line terminator and then stays silent.\<close>

definition timeout_os :: os_behaviour where
  "timeout_os = peer_os [Received (map of_nat (lit ''{''))]"

text \<open>A peer that answers with a line that is no JSON, between white space.\<close>

definition garbage_os :: os_behaviour where
  "garbage_os = peer_os [Received (map of_nat (lit '' oops'') @ [0x0D, 0x0A])]"

text \<open>A peer that answers with a byte that is no UTF-8.\<close>

definition binary_os :: os_behaviour where
  "binary_os = peer_os [Received [0xFF, 0x0A]]"

text \<open>
  A peer that sends \<open>{}\<close> between spaces in two chunks, without a line terminator, and
  closes; and one that does the same with the text \<open>oops\<close>.
\<close>

definition spaced_os :: os_behaviour where
  "spaced_os =
     peer_os [Received (map of_nat (lit '' {'')), Received (map of_nat (lit ''} '')),
              Received []]"

definition unparsable_os :: os_behaviour where
  "unparsable_os = peer_os [Received (map of_nat (lit '' oops'')), Received []]"

definition ok_response :: pyval where
  "ok_response = PDict [(lit ''success'', PBool True)]"

section \<open>Auxiliary facts\<close>

lemmas json_defs = json_dumps_def json_dumps_indent_def lit_def encode_basestring_ascii_def
  escape_char_def newline_indent_def item_separator_def int_repr_def digits.simps hex4_def
  hexdigit_def

lemmas run_defs = call_tool_def relay_def dump_result_def subscript_def send_command_def
  send_command_try_def connect_def connect_try_def disconnect_def request_def failure_def
  peer_os_def refusing_os_def scripted_def line_of_def ascii_decode_def
  loads_table_def example_lib_def connected_client_def init_client_def result_of_def
  trace_of_def client_of_def text_content_def py_strip_def is_space_def sent_def
  recv_loop.simps utf8_encode_def utf8_char_def is_surrogate_def new_socket_def Let_def
  RECLASS_HOST_def RECLASS_PORT_def ok_response_def reaches_exchange_def

lemma lit_inj [simp]: "lit a = lit b \<longleftrightarrow> a = b"
  unfolding lit_def by (simp add: inj_map_eq_map inj_on_def)

lemma tool_names_count: "length tool_names = 16 \<and> distinct tool_names"
  by (simp add: tool_names_def list_tools_def)

subsection \<open>The JSON text is printable ASCII\<close>

lemma printable_append [simp]: "printable (a @ b) \<longleftrightarrow> printable a \<and> printable b"
  by (simp add: printable_def)

lemma printable_Cons [simp]:
  "printable (x # a) \<longleftrightarrow> 0x20 \<le> x \<and> x \<le> 0x7E \<and> printable a"
  by (simp add: printable_def)

lemma printable_Nil [simp]: "printable []"
  by (simp add: printable_def)

lemma printable_digits: "printable (digits n)"
proof (induction n rule: digits.induct)
  case (1 n)
  show ?case
  proof (cases "n < 10")
    case True
    then show ?thesis by (subst digits.simps) simp
  next
    case False
    have "n mod 10 < 10" by simp
    then have "48 + n mod 10 \<le> 0x7E" by linarith
    with False 1 show ?thesis by (subst digits.simps) simp
  qed
qed

lemma printable_int_repr: "printable (int_repr i)"
  by (simp add: int_repr_def printable_digits)

lemma hexdigit_range: "d < 16 \<Longrightarrow> 0x20 \<le> hexdigit d \<and> hexdigit d \<le> 0x7E"
  by (simp add: hexdigit_def)

lemma printable_hex4: "printable (hex4 n)"
  by (simp add: hex4_def hexdigit_range)

lemma printable_escape_char: "printable (escape_char n)"
  by (simp add: escape_char_def lit_def printable_hex4 Let_def)

lemma printable_concat: "(\<And>x. x \<in> set xs \<Longrightarrow> printable x) \<Longrightarrow> printable (concat xs)"
  by (induction xs) auto

lemma printable_basestring: "printable (encode_basestring_ascii s)"
  by (auto simp: encode_basestring_ascii_def printable_escape_char intro!: printable_concat)

lemma printable_join:
  "printable sep \<Longrightarrow> (\<And>x. x \<in> set xs \<Longrightarrow> printable x) \<Longrightarrow> printable (join sep xs)"
  by (induction sep xs rule: join.induct) auto

lemma printable_iterencode: "printable (iterencode None lvl v)"
proof (induction "None :: nat option" lvl v rule: iterencode.induct)
  case (5 lvl xs)
  then show ?case
    by (auto simp: lit_def newline_indent_def item_separator_def intro!: printable_join)
next
  case (6 lvl kvs)
  then show ?case
    by (auto simp: lit_def newline_indent_def item_separator_def printable_basestring
        intro!: printable_join)
qed (simp_all add: lit_def printable_int_repr printable_basestring)

lemma printable_json_dumps: "printable (json_dumps v)"
  by (simp add: json_dumps_def printable_iterencode)

subsection \<open>Encoding the request line\<close>

lemma utf8_encode_ascii:
  assumes "list_all (\<lambda>n. n < 0x80) s"
  shows "utf8_encode s = Inr (map of_nat s)"
proof -
  have a: "\<forall>n\<in>set s. n < 0x80"
    using assms by (simp add: list_all_iff)
  then have "\<not> list_ex is_surrogate s"
    by (auto simp: list_ex_iff is_surrogate_def)
  moreover have "concat (map utf8_char s) = map of_nat s"
    using a by (induction s) (auto simp: utf8_char_def)
  ultimately show ?thesis by (simp add: utf8_encode_def)
qed

lemma wire_encoding:
  "utf8_encode (json_dumps req @ [0x0A]) = Inr (map of_nat (json_dumps req) @ [0x0A])"
proof -
  have "printable (json_dumps req)" by (rule printable_json_dumps)
  then have "list_all (\<lambda>n. n < 0x80) (json_dumps req @ [0x0A])"
    by (auto simp: printable_def list_all_iff)
  from utf8_encode_ascii[OF this] show ?thesis by simp
qed

lemma byte_of_printable_not_newline:
  assumes "printable s"
  shows "(0x0A :: byte) \<notin> set (map of_nat s)"
proof
  assume "(0x0A :: byte) \<in> set (map of_nat s)"
  then obtain n where n: "n \<in> set s" "(of_nat n :: byte) = 0x0A" by auto
  with assms have r: "0x20 \<le> n" "n \<le> 0x7E" by (auto simp: printable_def list_all_iff)
  from n(2) have "unat (of_nat n :: byte) = 10" by simp
  with r show False by (simp add: unat_of_nat)
qed

lemma count_newline:
  assumes "(0x0A :: byte) \<notin> set xs"
  shows "count_list (xs @ [0x0A]) 0x0A = 1"
  using assms by (induction xs) auto

lemma request_object:
  "request command args =
     PDict [(lit ''command'', PStr command),
            (lit ''args'', PDict (case args of None \<Rightarrow> [] | Some d \<Rightarrow> d))]"
  by (simp add: request_def split: option.splits)

subsection \<open>The read loop\<close>

lemma buffer_after_Suc: "buffer_after rs (Suc n) = buffer_after rs n @ chunk_of (rs n)"
  by (simp add: buffer_after_def)

lemma recv_loop_keeps:
  assumes "keeps_reading rs n"
  shows "recv_loop rs n (buffer_after rs n) = recv_loop rs (Suc n) (buffer_after rs (Suc n))"
  using assms
  by (subst recv_loop.simps)
     (auto simp: keeps_reading_def buffer_after_Suc chunk_of_def Let_def
       split: recv_result.splits)

lemma recv_loop_stops:
  assumes "stops_reading rs n"
  shows "recv_loop rs n (buffer_after rs n) = Some (Inr (buffer_after rs (Suc n)), Suc n)"
  using assms
  by (subst recv_loop.simps)
     (auto simp: stops_reading_def buffer_after_Suc chunk_of_def Let_def
       split: recv_result.splits)

lemma recv_loop_skip:
  assumes "\<forall>j<n. keeps_reading rs j"
  shows "recv_loop rs 0 [] = recv_loop rs n (buffer_after rs n)"
  using assms
proof (induction n)
  case 0
  show ?case by (simp add: buffer_after_def)
next
  case (Suc n)
  then show ?case by (simp add: recv_loop_keeps)
qed

lemma loop_exit_raises:
  "rs i = RecvRaises e \<Longrightarrow> \<forall>j<i. keeps_reading rs j \<Longrightarrow> loop_exit rs (Inl e, Suc i)"
  unfolding loop_exit_def by (rule exI[of _ i]) simp

lemma loop_exit_stops:
  "stops_reading rs i \<Longrightarrow> \<forall>j<i. keeps_reading rs j
     \<Longrightarrow> loop_exit rs (Inr (buffer_after rs (Suc i)), Suc i)"
  unfolding loop_exit_def by (rule exI[of _ i]) simp

text \<open>Every result of the loop is an exit at the first read that does not go on.\<close>

lemma recv_loop_sound:
  assumes "recv_loop rs i acc = Some y"
  shows "acc = buffer_after rs i \<longrightarrow> (\<forall>j<i. keeps_reading rs j) \<longrightarrow> loop_exit rs y"
proof (rule recv_loop.raw_induct
    [where P = "\<lambda>rs i acc y. acc = buffer_after rs i \<longrightarrow> (\<forall>j<i. keeps_reading rs j)
                   \<longrightarrow> loop_exit rs y", OF _ assms], goal_cases)
  case (1 loop rs i response y)
  show ?case
  proof (intro impI)
    assume acc: "response = buffer_after rs i" and pre: "\<forall>j<i. keeps_reading rs j"
    show "loop_exit rs y"
    proof (cases "rs i")
      case (RecvRaises e)
      with 1(2) have "y = (Inl e, Suc i)" by simp
      with RecvRaises pre show ?thesis by (simp add: loop_exit_raises)
    next
      case (Received chunk)
      have buf: "buffer_after rs (Suc i) = response @ chunk"
        using Received acc by (simp add: buffer_after_Suc chunk_of_def)
      show ?thesis
      proof (cases "chunk = [] \<or> 0x0A \<in> set (response @ chunk)")
        case True
        with Received buf have st: "stops_reading rs i"
          by (simp add: stops_reading_def)
        from True 1(2) Received have "y = (Inr (response @ chunk), Suc i)"
          by (auto simp: Let_def split: if_splits)
        with buf loop_exit_stops[OF st pre] show ?thesis by simp
      next
        case False
        with 1(2) Received have rec: "loop rs (Suc i) (response @ chunk) = Some y"
          by (simp add: Let_def)
        from False Received buf have k: "keeps_reading rs i"
          by (simp add: keeps_reading_def)
        with pre have pre': "\<forall>j<Suc i. keeps_reading rs j"
          by (simp add: less_Suc_eq)
        from 1(1)[OF rec] buf pre' show ?thesis by simp
      qed
    qed
  qed
qed

lemma recv_loop_normal_iff:
  "recv_loop rs 0 [] = Some (Inr buf, n) \<longleftrightarrow>
     (\<exists>k. n = Suc k \<and> (\<forall>j<k. keeps_reading rs j) \<and> stops_reading rs k
         \<and> buf = buffer_after rs n)"
proof
  assume "recv_loop rs 0 [] = Some (Inr buf, n)"
  from recv_loop_sound[OF this] have "loop_exit rs (Inr buf, n)"
    by (simp add: buffer_after_def)
  then show "\<exists>k. n = Suc k \<and> (\<forall>j<k. keeps_reading rs j) \<and> stops_reading rs k
         \<and> buf = buffer_after rs n"
    unfolding loop_exit_def by auto
next
  assume "\<exists>k. n = Suc k \<and> (\<forall>j<k. keeps_reading rs j) \<and> stops_reading rs k
         \<and> buf = buffer_after rs n"
  then obtain k where k: "n = Suc k" "\<forall>j<k. keeps_reading rs j" "stops_reading rs k"
    "buf = buffer_after rs n" by blast
  then show "recv_loop rs 0 [] = Some (Inr buf, n)"
    by (simp add: recv_loop_skip[OF k(2)] recv_loop_stops)
qed

text \<open>A peer that never stops sending data without a line terminator keeps the loop alive.\<close>

lemma recv_loop_diverges:
  assumes "\<forall>j. keeps_reading rs j"
  shows "recv_loop rs 0 [] = None"
proof (cases "recv_loop rs 0 []")
  case None
  then show ?thesis .
next
  case (Some y)
  from recv_loop_sound[OF Some] have "loop_exit rs y"
    by (simp add: buffer_after_def)
  then obtain k where
    "case fst y of Inr buf \<Rightarrow> stops_reading rs k \<and> buf = buffer_after rs (Suc k)
        | Inl e \<Rightarrow> rs k = RecvRaises e"
    unfolding loop_exit_def by blast
  moreover have "keeps_reading rs k" using assms by simp
  ultimately show ?thesis
    by (auto simp: keeps_reading_def stops_reading_def split: sum.splits recv_result.splits)
qed

subsection \<open>The shape of \<open>send_command\<close>\<close>

lemma sent_append [simp]: "sent (a @ b) = sent a @ sent b"
  by (simp add: sent_def)

lemma sent_recvs [simp]: "sent (replicate n (EvRecv k)) = []"
  by (induction n) (simp_all add: sent_def)

lemma sent_connect [simp]: "sent (fst (snd (connect os c))) = []"
  by (simp add: connect_def connect_try_def sent_def Let_def split: option.splits)

lemma connect_trace: "\<exists>t'. fst (snd (connect os c)) = EvSocket # t'"
  by (simp add: connect_def connect_try_def Let_def split: option.splits)

lemma connect_True_sock:
  "connect os c = (c1, t1, Inr True) \<Longrightarrow> sock c1 \<noteq> None"
  by (auto simp: connect_def connect_try_def Let_def split: option.splits)

lemma exchange_returns_try:
  assumes "exchange_returns lib os v"
  shows "\<exists>t2. send_command_try lib os req = Some (t2, Inr v)
           \<and> sent t2 = [map of_nat (json_dumps req) @ [0x0A]]"
  using assms
  by (auto simp: exchange_returns_def send_command_try_def wire_encoding sent_def Let_def
      split: option.splits sum.splits prod.splits)

text \<open>What \<open>send_command\<close> does once the \<open>try\<close> block is reached.\<close>

lemma send_command_reached:
  assumes "reaches_exchange os c"
  shows "\<exists>c1 t1. sock c1 \<noteq> None \<and> sent t1 = [] \<and> send_command lib os c command args =
     (case send_command_try lib os (request command args) of
        None \<Rightarrow> None
      | Some (t2, Inr v) \<Rightarrow> Some (c1, t1 @ t2, Inr v)
      | Some (t2, Inl e) \<Rightarrow>
          Some (c1\<lparr>sock := None\<rparr>, t1 @ t2 @ [EvClose], Inr (failure (exn_str e))))"
proof (cases "sock c = None")
  case False
  then show ?thesis
    by (intro exI[of _ c] exI[of _ "[]"])
       (auto simp: send_command_def disconnect_def sent_def split: option.splits sum.splits)
next
  case True
  with assms obtain c1 t1 where c: "connect os c = (c1, t1, Inr True)"
    by (cases "connect os c") (auto simp: reaches_exchange_def result_of_def)
  from connect_True_sock[OF c] have s: "sock c1 \<noteq> None" .
  have "sent t1 = []" using sent_connect[of os c] c by simp
  with s c True show ?thesis
    by (intro exI[of _ c1] exI[of _ t1])
       (auto simp: send_command_def disconnect_def split: option.splits sum.splits)
qed

subsection \<open>Exchanges that raise\<close>

lemma dropWhile_all: "list_all P xs \<Longrightarrow> dropWhile P (xs @ ys) = dropWhile P ys"
  by (induction xs) auto

lemma py_strip_parts:
  assumes "strips_to a s b"
  shows "py_strip (a @ s @ b) = s"
proof (cases "s = []")
  case True
  with assms have "list_all is_space (a @ b)" by (simp add: strips_to_def)
  then have dw: "dropWhile is_space (a @ b) = []"
    by (simp only: dropWhile_eq_Nil_conv list_all_iff)
  have "py_strip (a @ b) = []"
    by (simp only: py_strip_def dw rev.simps dropWhile.simps)
  with True show ?thesis by simp
next
  case False
  with assms have h: "\<not> is_space (hd s)" "\<not> is_space (last s)"
    "list_all is_space a" "list_all is_space b"
    by (auto simp: strips_to_def)
  from False h(1) have "dropWhile is_space (s @ b) = s @ b"
    by (cases s) auto
  with h(3) have 1: "dropWhile is_space (a @ s @ b) = s @ b"
    by (simp add: dropWhile_all)
  from False h(2) have "dropWhile is_space (rev s) = rev s"
    by (cases "rev s") (auto simp: last_rev[symmetric] hd_rev)
  moreover from h(4) have "list_all is_space (rev b)" by (simp add: list_all_iff)
  ultimately have "dropWhile is_space (rev b @ rev s) = rev s"
    by (simp add: dropWhile_all)
  with 1 show ?thesis by (simp add: py_strip_def)
qed

lemma recv_loop_raises_at:
  assumes "\<forall>j<k. keeps_reading rs j" and "rs k = RecvRaises e"
  shows "recv_loop rs 0 [] = Some (Inl e, Suc k)"
  using assms(2) by (simp add: recv_loop_skip[OF assms(1)]) (subst recv_loop.simps, simp)

lemma recv_loop_stops_at:
  assumes "\<forall>j<k. keeps_reading rs j" and "stops_reading rs k"
  shows "recv_loop rs 0 [] = Some (Inr (buffer_after rs (Suc k)), Suc k)"
  using assms(2) by (simp add: recv_loop_skip[OF assms(1)] recv_loop_stops)

lemma try_write_raises:
  assumes "write_raises os e"
  shows "\<exists>t2. send_command_try lib os req = Some (t2, Inl e)"
  using assms by (simp add: write_raises_def send_command_try_def wire_encoding)

lemma try_read_raises:
  assumes "read_raises os k e"
  shows "\<exists>t2. send_command_try lib os req = Some (t2, Inl e)"
proof -
  from assms have "recv_loop (recv_results os) 0 [] = Some (Inl e, Suc k)"
    by (simp add: read_raises_def reads_until_def recv_loop_raises_at)
  with assms show ?thesis
    by (simp add: read_raises_def reads_until_def send_command_try_def wire_encoding)
qed

lemma try_response:
  assumes "reads_until os k" and "stops_reading (recv_results os) k"
  shows "\<exists>t2. send_command_try lib os req =
           Some (t2, case utf8_decode lib (buffer_after (recv_results os) (Suc k)) of
                       Inl e \<Rightarrow> Inl e
                     | Inr txt \<Rightarrow> json_loads lib (py_strip txt))"
proof -
  from assms have "recv_loop (recv_results os) 0 []
      = Some (Inr (buffer_after (recv_results os) (Suc k)), Suc k)"
    by (simp add: reads_until_def recv_loop_stops_at)
  with assms(1) show ?thesis
    by (simp add: reads_until_def send_command_try_def wire_encoding Let_def
        split: sum.splits)
qed

lemma try_decode_raises:
  assumes "decode_raises lib os k e"
  shows "\<exists>t2. send_command_try lib os req = Some (t2, Inl e)"
  using assms try_response[of os k lib req] by (auto simp: decode_raises_def)

lemma try_parse_raises:
  assumes "parse_raises lib os k a s b e"
  shows "\<exists>t2. send_command_try lib os req = Some (t2, Inl e)"
  using assms try_response[of os k lib req]
  by (auto simp: parse_raises_def py_strip_parts)

lemma send_command_failed:
  assumes "reaches_exchange os c"
      and "send_command_try lib os (request command args) = Some (t2, Inl e)"
  shows "\<exists>t. send_command lib os c command args =
           Some (c\<lparr>sock := None\<rparr>, t @ [EvClose], Inr (failure (exn_str e)))"
proof (cases "sock c = None")
  case False
  with assms(2) show ?thesis
    by (auto simp: send_command_def disconnect_def split: option.splits)
next
  case True
  with assms(1) obtain c1 t1 where c: "connect os c = (c1, t1, Inr True)"
    by (cases "connect os c") (auto simp: reaches_exchange_def result_of_def)
  then have "sock c1 \<noteq> None \<and> c1\<lparr>sock := None\<rparr> = c\<lparr>sock := None\<rparr>"
    by (auto simp: connect_def connect_try_def Let_def split: option.splits)
  with c True assms(2) show ?thesis
    by (auto simp: send_command_def disconnect_def split: option.splits)
qed

lemma send_command_absent:
  assumes "sock c = None"
  shows "send_command lib os c command args =
     (if socket_raises os \<noteq> None then
        Some (c, [EvSocket],
              Inr (PDict [(lit ''success'', PBool False),
                          (lit ''error'', PStr (lit ''Failed to connect to ReClass.NET plugin''))]))
      else if settimeout_raises os \<noteq> None then
        Some (c, [EvSocket, EvSettimeout 10],
              Inr (PDict [(lit ''success'', PBool False),
                          (lit ''error'', PStr (lit ''Failed to connect to ReClass.NET plugin''))]))
      else if connect_raises os \<noteq> None then
        Some (c, [EvSocket, EvSettimeout 10, EvConnect (host c) (port c)],
              Inr (PDict [(lit ''success'', PBool False),
                          (lit ''error'', PStr (lit ''Failed to connect to ReClass.NET plugin''))]))
      else map_option (prepend_trace [EvSocket, EvSettimeout 10, EvConnect (host c) (port c)])
             (send_command lib os
                (c\<lparr>sock := Some \<lparr>timeout = Some 10, peer = Some (host c, port c)\<rparr>\<rparr>)
                command args))"
  using assms
  by (cases c)
     (auto simp: send_command_def connect_def connect_try_def failure_def prepend_trace_def
        disconnect_def Let_def split: option.splits sum.splits prod.splits)

section \<open>The command relay\<close>

text \<open>
  C1: when \<open>send_command\<close> reaches the exchange and an exception \<open>e\<close> is raised by the
  write, by a read, by decoding the response or by parsing it as JSON, the call returns the
  value \<open>{"success": False, "error": str(e)}\<close> (no exception leaves the call), the socket
  is closed last, and the client is left without a connection. The next \<open>send_command\<close> on
  that client, whatever it is asked and whatever the operating system then does, begins
  with a new connect: if creating the socket, setting its timeout or connecting raises, it
  returns the connection failure value after these events; otherwise it is the call of a
  freshly connected client, after the three events of the connect.
\<close>

theorem failed_exchange_discards_connection:
  assumes "reaches_exchange os c"
      and "write_raises os e \<or> read_raises os k e \<or> decode_raises lib os k e
           \<or> parse_raises lib os k a s b e"
  shows "(\<exists>t. send_command lib os c command args =
            Some (c\<lparr>sock := None\<rparr>, t @ [EvClose],
                  Inr (PDict [(lit ''success'', PBool False),
                              (lit ''error'', PStr (exn_str e))])))
       \<and> (\<forall>lib' os' command' args'.
            send_command lib' os' (c\<lparr>sock := None\<rparr>) command' args' =
              (if socket_raises os' \<noteq> None then
                 Some (c\<lparr>sock := None\<rparr>, [EvSocket],
                   Inr (PDict [(lit ''success'', PBool False),
                     (lit ''error'', PStr (lit ''Failed to connect to ReClass.NET plugin''))]))
               else if settimeout_raises os' \<noteq> None then
                 Some (c\<lparr>sock := None\<rparr>, [EvSocket, EvSettimeout 10],
                   Inr (PDict [(lit ''success'', PBool False),
                     (lit ''error'', PStr (lit ''Failed to connect to ReClass.NET plugin''))]))
               else if connect_raises os' \<noteq> None then
                 Some (c\<lparr>sock := None\<rparr>, [EvSocket, EvSettimeout 10, EvConnect (host c) (port c)],
                   Inr (PDict [(lit ''success'', PBool False),
                     (lit ''error'', PStr (lit ''Failed to connect to ReClass.NET plugin''))]))
               else map_option
                      (prepend_trace [EvSocket, EvSettimeout 10, EvConnect (host c) (port c)])
                      (send_command lib' os'
                         (c\<lparr>sock := Some \<lparr>timeout = Some 10, peer = Some (host c, port c)\<rparr>\<rparr>)
                         command' args')))"
proof (intro conjI allI)
  from assms(2)
    try_write_raises[of os e lib "request command args"]
    try_read_raises[of os k e lib "request command args"]
    try_decode_raises[of lib os k e "request command args"]
    try_parse_raises[of lib os k a s b e "request command args"]
  obtain t2 where
    "send_command_try lib os (request command args) = Some (t2, Inl e)"
    by blast
  from send_command_failed[OF assms(1) this]
  show "\<exists>t. send_command lib os c command args =
            Some (c\<lparr>sock := None\<rparr>, t @ [EvClose],
                  Inr (PDict [(lit ''success'', PBool False),
                              (lit ''error'', PStr (exn_str e))]))"
    by (simp add: failure_def)
next
  fix lib' os' command' args'
  have "sock (c\<lparr>sock := None\<rparr>) = None" by simp
  from send_command_absent[OF this, of lib' os' command' args']
  show "send_command lib' os' (c\<lparr>sock := None\<rparr>) command' args' =
              (if socket_raises os' \<noteq> None then
                 Some (c\<lparr>sock := None\<rparr>, [EvSocket],
                   Inr (PDict [(lit ''success'', PBool False),
                     (lit ''error'', PStr (lit ''Failed to connect to ReClass.NET plugin''))]))
               else if settimeout_raises os' \<noteq> None then
                 Some (c\<lparr>sock := None\<rparr>, [EvSocket, EvSettimeout 10],
                   Inr (PDict [(lit ''success'', PBool False),
                     (lit ''error'', PStr (lit ''Failed to connect to ReClass.NET plugin''))]))
               else if connect_raises os' \<noteq> None then
                 Some (c\<lparr>sock := None\<rparr>, [EvSocket, EvSettimeout 10, EvConnect (host c) (port c)],
                   Inr (PDict [(lit ''success'', PBool False),
                     (lit ''error'', PStr (lit ''Failed to connect to ReClass.NET plugin''))]))
               else map_option
                      (prepend_trace [EvSocket, EvSettimeout 10, EvConnect (host c) (port c)])
                      (send_command lib' os'
                         (c\<lparr>sock := Some \<lparr>timeout = Some 10, peer = Some (host c, port c)\<rparr>\<rparr>)
                         command' args'))"
    by simp
qed

theorem failed_exchange_discards_connection_witness:
  \<open>reaches_exchange broken_pipe_os connected_client
   \<and> write_raises broken_pipe_os (OSError (lit ''[Errno 32] Broken pipe''))
   \<and> send_command (example_lib []) broken_pipe_os connected_client (lit ''ping'') None
     = Some (init_client,
             [EvSendall (map of_nat (lit ''{"command": "ping", "args": {}}'') @ [0x0A]), EvClose],
             Inr (PDict [(lit ''success'', PBool False),
                         (lit ''error'', PStr (lit ''[Errno 32] Broken pipe''))]))
   \<and> reaches_exchange timeout_os init_client
   \<and> read_raises timeout_os 1 (OSError (lit ''timed out''))
   \<and> send_command (example_lib []) timeout_os init_client (lit ''ping'') None
     = Some (init_client,
             [EvSocket, EvSettimeout 10, EvConnect RECLASS_HOST RECLASS_PORT,
              EvSendall (map of_nat (lit ''{"command": "ping", "args": {}}'') @ [0x0A]),
              EvRecv 4096, EvRecv 4096, EvClose],
             Inr (PDict [(lit ''success'', PBool False),
                         (lit ''error'', PStr (lit ''timed out''))]))
   \<and> reaches_exchange garbage_os connected_client
   \<and> parse_raises (example_lib []) garbage_os 0 (lit '' '') (lit ''oops'') [0x0D, 0x0A]
       (JSONDecodeError (lit ''Expecting value: line 1 column 1 (char 0)''))
   \<and> send_command (example_lib []) garbage_os connected_client (lit ''ping'') None
     = Some (init_client,
             [EvSendall (map of_nat (lit ''{"command": "ping", "args": {}}'') @ [0x0A]),
              EvRecv 4096, EvClose],
             Inr (PDict [(lit ''success'', PBool False),
                         (lit ''error'',
                          PStr (lit ''Expecting value: line 1 column 1 (char 0)''))]))
   \<and> reaches_exchange binary_os connected_client
   \<and> decode_raises (example_lib []) binary_os 0
       (UnicodeDecodeError (lit [CHR 0x27] @ lit ''utf-8'' @ lit [CHR 0x27] @ lit '' codec can''
          @ lit [CHR 0x27] @ lit ''t decode byte 0xff in position 0: invalid start byte''))
   \<and> map_option result_of
       (send_command (example_lib []) binary_os connected_client (lit ''ping'') None)
     = Some (Inr (PDict [(lit ''success'', PBool False),
                         (lit ''error'',
                          PStr (lit [CHR 0x27] @ lit ''utf-8'' @ lit [CHR 0x27] @ lit '' codec can''
          @ lit [CHR 0x27] @ lit ''t decode byte 0xff in position 0: invalid start byte''))]))
   \<and> send_command (example_lib []) refusing_os init_client (lit ''get_status'') None
     = Some (init_client, [EvSocket, EvSettimeout 10, EvConnect RECLASS_HOST RECLASS_PORT],
             Inr (PDict [(lit ''success'', PBool False),
                         (lit ''error'', PStr (lit ''Failed to connect to ReClass.NET plugin''))]))
   \<and> send_command (example_lib [ok_response]) (peer_os [Received (line_of ok_response)])
       init_client (lit ''get_status'') None
     = Some (connected_client,
             [EvSocket, EvSettimeout 10, EvConnect RECLASS_HOST RECLASS_PORT,
              EvSendall (map of_nat (lit ''{"command": "get_status", "args": {}}'') @ [0x0A]),
              EvRecv 4096],
             Inr (PDict [(lit ''success'', PBool True)]))\<close>
proof -
  note raise_defs = write_raises_def read_raises_def decode_raises_def parse_raises_def
    reads_until_def strips_to_def keeps_reading_def stops_reading_def buffer_after_def
    chunk_of_def timeout_os_def garbage_os_def binary_os_def broken_pipe_os_def
    prepend_trace_def less_2_cases_iff
  have h1: "reaches_exchange broken_pipe_os connected_client"
    by (simp add: run_defs raise_defs lit_def)
  have h2: "write_raises broken_pipe_os (OSError (lit ''[Errno 32] Broken pipe''))"
    by (simp add: run_defs raise_defs lit_def)
  have h3: "reaches_exchange timeout_os init_client"
    by (simp add: run_defs raise_defs lit_def)
  have h4: "read_raises timeout_os 1 (OSError (lit ''timed out''))"
    by (simp add: run_defs raise_defs lit_def)
  have h5: "reaches_exchange garbage_os connected_client"
    by (simp add: run_defs raise_defs lit_def)
  have h6: "parse_raises (example_lib []) garbage_os 0 (lit '' '') (lit ''oops'') [0x0D, 0x0A]
       (JSONDecodeError (lit ''Expecting value: line 1 column 1 (char 0)''))"
    by (simp add: run_defs raise_defs json_defs)
  have h7: "reaches_exchange binary_os connected_client"
    by (simp add: run_defs raise_defs lit_def)
  have h8: "decode_raises (example_lib []) binary_os 0
       (UnicodeDecodeError (lit [CHR 0x27] @ lit ''utf-8'' @ lit [CHR 0x27] @ lit '' codec can''
          @ lit [CHR 0x27] @ lit ''t decode byte 0xff in position 0: invalid start byte''))"
    by (simp add: run_defs raise_defs json_defs)
  from failed_exchange_discards_connection[OF h7 disjI2[OF disjI2[OF disjI1[OF h8]]],
      where command = "lit ''ping''" and args = None]
  have r4: "map_option result_of
       (send_command (example_lib []) binary_os connected_client (lit ''ping'') None)
     = Some (Inr (PDict [(lit ''success'', PBool False),
                         (lit ''error'',
                          PStr (lit [CHR 0x27] @ lit ''utf-8'' @ lit [CHR 0x27] @ lit '' codec can''
          @ lit [CHR 0x27] @ lit ''t decode byte 0xff in position 0: invalid start byte''))]))"
    by (auto simp: result_of_def)
  show ?thesis
    using h1 h2 h3 h4 h5 h6 h7 h8 r4
    by (simp add: run_defs raise_defs json_defs)
qed




text \<open>
  C4: in every exchange that succeeds, \<open>send_command\<close> makes exactly one \<open>sendall\<close> call; the
  bytes it writes are the JSON text of \<open>{"command": command, "args": args}\<close> (an absent
  \<open>args\<close> counting as the empty mapping), one byte a character, followed by one line
  terminator, and the line terminator occurs nowhere else in them. \<open>sendall\<close> returning
  without an exception is the write having completed in full.
\<close>

theorem request_bytes_on_wire:
  assumes "reaches_exchange os c" and "exchange_returns lib os v"
  shows "\<exists>c' t wire. send_command lib os c command args = Some (c', t, Inr v)
           \<and> sent t = [wire]
           \<and> wire = map of_nat (json_dumps
                       (PDict [(lit ''command'', PStr command),
                               (lit ''args'', PDict (case args of None \<Rightarrow> [] | Some d \<Rightarrow> d))]))
                    @ [0x0A]
           \<and> count_list wire 0x0A = 1"
proof -
  from exchange_returns_try[OF assms(2), of "request command args"] obtain t2 where
    t2: "send_command_try lib os (request command args) = Some (t2, Inr v)"
        "sent t2 = [map of_nat (json_dumps (request command args)) @ [0x0A]]"
    by blast
  from send_command_reached[OF assms(1), of lib command args] t2(1)
  obtain c1 t1 where r: "sent t1 = []"
      "send_command lib os c command args = Some (c1, t1 @ t2, Inr v)"
    by auto
  have "sent (t1 @ t2) = [map of_nat (json_dumps (request command args)) @ [0x0A]]"
    using r(1) t2(2) by simp
  moreover have
    "count_list (map of_nat (json_dumps (request command args)) @ [0x0A :: byte]) 0x0A = 1"
    by (rule count_newline) (rule byte_of_printable_not_newline, rule printable_json_dumps)
  ultimately show ?thesis using r(2) by (simp add: request_object)
qed

theorem request_bytes_on_wire_witness:
  \<open>reaches_exchange (peer_os [Received (line_of ok_response)]) init_client
   \<and> exchange_returns (example_lib [ok_response]) (peer_os [Received (line_of ok_response)])
       ok_response
   \<and> map_option (sent \<circ> trace_of)
       (send_command (example_lib [ok_response]) (peer_os [Received (line_of ok_response)])
          init_client (lit ''read_memory'')
          (Some [(lit ''address'', PStr (lit ''0x1000'')), (lit ''size'', PStr (lit ''16''))]))
     = Some [map of_nat
               (lit ''{"command": "read_memory", "args": {"address": "0x1000", "size": "16"}}'')
             @ [0x0A]]\<close>
proof -
  have h1: "reaches_exchange (peer_os [Received (line_of ok_response)]) init_client"
    by (simp add: run_defs)
  have h2: "exchange_returns (example_lib [ok_response])
              (peer_os [Received (line_of ok_response)]) ok_response"
    by (simp add: exchange_returns_def run_defs json_defs)
  show ?thesis
    using h1 h2
      request_bytes_on_wire[OF h1 h2, of "lit ''read_memory''"
        "Some [(lit ''address'', PStr (lit ''0x1000'')), (lit ''size'', PStr (lit ''16''))]"]
    by (simp add: run_defs json_defs)
qed

text \<open>
  C5: once the request is written, the read loop appends each chunk it receives to the
  buffer, and it ends normally with buffer \<open>buf\<close> after \<open>n\<close> reads exactly when the \<open>n\<close>-th
  read is the first that returns an empty chunk (the peer closed the stream) or leaves a
  line terminator in the buffer; \<open>buf\<close> is then the concatenation of the chunks received.
  A response without a line terminator is accepted when the peer closes. Whenever the
  reads end so, \<open>send_command\<close> returns a value and raises nothing: if decoding the buffer
  raises \<open>e\<close>, the value \<open>{"success": False, "error": str(e)}\<close>; if the buffer decodes to
  white space, a core \<open>s\<close> and white space, the JSON value parsed from \<open>s\<close>, or
  \<open>{"success": False, "error": str(e)}\<close> when parsing \<open>s\<close> raises \<open>e\<close>. (A read that raises
  leaves the loop through the exception handler, which is the case of C1.)
\<close>

theorem read_loop_and_parse:
  assumes "reaches_exchange os c" and "sendall_raises os = None"
  shows "(recv_loop (recv_results os) 0 [] = Some (Inr buf, n) \<longleftrightarrow>
            (\<exists>k. n = Suc k \<and> (\<forall>j<k. keeps_reading (recv_results os) j)
                \<and> stops_reading (recv_results os) k
                \<and> buf = buffer_after (recv_results os) n))
       \<and> ((\<forall>j<k. keeps_reading (recv_results os) j) \<and> stops_reading (recv_results os) k \<longrightarrow>
            (\<forall>e. utf8_decode lib (buffer_after (recv_results os) (Suc k)) = Inl e \<longrightarrow>
               (\<exists>c' t. send_command lib os c command args =
                  Some (c', t, Inr (PDict [(lit ''success'', PBool False),
                                           (lit ''error'', PStr (exn_str e))]))))
          \<and> (\<forall>a s b. utf8_decode lib (buffer_after (recv_results os) (Suc k)) = Inr (a @ s @ b)
                    \<and> strips_to a s b \<longrightarrow>
               (\<exists>c' t. send_command lib os c command args =
                  Some (c', t,
                    Inr (case json_loads lib s of
                           Inl e \<Rightarrow> PDict [(lit ''success'', PBool False),
                                           (lit ''error'', PStr (exn_str e))]
                         | Inr v \<Rightarrow> v)))))"
proof (intro conjI impI allI)
  show "recv_loop (recv_results os) 0 [] = Some (Inr buf, n) \<longleftrightarrow>
            (\<exists>k. n = Suc k \<and> (\<forall>j<k. keeps_reading (recv_results os) j)
                \<and> stops_reading (recv_results os) k
                \<and> buf = buffer_after (recv_results os) n)"
    by (rule recv_loop_normal_iff)
next
  fix e
  assume k: "(\<forall>j<k. keeps_reading (recv_results os) j) \<and> stops_reading (recv_results os) k"
    and d: "utf8_decode lib (buffer_after (recv_results os) (Suc k)) = Inl e"
  from k assms(2) have "reads_until os k" by (simp add: reads_until_def)
  from try_response[OF this, of lib "request command args"] k d obtain t2 where
    "send_command_try lib os (request command args) = Some (t2, Inl e)" by auto
  from send_command_failed[OF assms(1) this]
  show "\<exists>c' t. send_command lib os c command args =
                  Some (c', t, Inr (PDict [(lit ''success'', PBool False),
                                           (lit ''error'', PStr (exn_str e))]))"
    by (auto simp: failure_def)
next
  fix a s b
  assume k: "(\<forall>j<k. keeps_reading (recv_results os) j) \<and> stops_reading (recv_results os) k"
    and d: "utf8_decode lib (buffer_after (recv_results os) (Suc k)) = Inr (a @ s @ b)
              \<and> strips_to a s b"
  from k assms(2) have "reads_until os k" by (simp add: reads_until_def)
  from try_response[OF this, of lib "request command args"] k d obtain t2 where
    t: "send_command_try lib os (request command args) = Some (t2, json_loads lib s)"
    by (auto simp: py_strip_parts)
  show "\<exists>c' t. send_command lib os c command args =
                  Some (c', t,
                    Inr (case json_loads lib s of
                           Inl e \<Rightarrow> PDict [(lit ''success'', PBool False),
                                           (lit ''error'', PStr (exn_str e))]
                         | Inr v \<Rightarrow> v))"
  proof (cases "json_loads lib s")
    case (Inl e)
    with t send_command_failed[OF assms(1), of lib command args t2 e] show ?thesis
      by (auto simp: failure_def)
  next
    case (Inr v)
    with t send_command_reached[OF assms(1), of lib command args] show ?thesis
      by auto
  qed
qed

theorem read_loop_and_parse_witness:
  \<open>reaches_exchange spaced_os connected_client
   \<and> sendall_raises spaced_os = None
   \<and> keeps_reading (recv_results spaced_os) 0 \<and> keeps_reading (recv_results spaced_os) 1
   \<and> stops_reading (recv_results spaced_os) 2
   \<and> recv_loop (recv_results spaced_os) 0 [] = Some (Inr (map of_nat (lit '' {} '')), 3)
   \<and> utf8_decode (example_lib [PDict []]) (buffer_after (recv_results spaced_os) 3)
       = Inr (lit '' '' @ lit ''{}'' @ lit '' '')
   \<and> strips_to (lit '' '') (lit ''{}'') (lit '' '')
   \<and> send_command (example_lib [PDict []]) spaced_os connected_client (lit ''get_status'') None
     = Some (connected_client,
             [EvSendall (map of_nat (lit ''{"command": "get_status", "args": {}}'') @ [0x0A]),
              EvRecv 4096, EvRecv 4096, EvRecv 4096],
             Inr (PDict []))
   \<and> reaches_exchange unparsable_os connected_client
   \<and> sendall_raises unparsable_os = None
   \<and> keeps_reading (recv_results unparsable_os) 0
   \<and> stops_reading (recv_results unparsable_os) 1
   \<and> utf8_decode (example_lib []) (buffer_after (recv_results unparsable_os) 2)
       = Inr (lit '' '' @ lit ''oops'' @ [])
   \<and> strips_to (lit '' '') (lit ''oops'') []
   \<and> map_option result_of
       (send_command (example_lib []) unparsable_os connected_client (lit ''get_status'') None)
     = Some (Inr (PDict [(lit ''success'', PBool False),
                         (lit ''error'',
                          PStr (lit ''Expecting value: line 1 column 1 (char 0)''))]))\<close>
proof -
  note loop_defs = spaced_os_def unparsable_os_def keeps_reading_def stops_reading_def
    buffer_after_def chunk_of_def strips_to_def less_2_cases_iff
  have upt3: "[0..<3] = [0, 1, 2 :: nat]" and upt2: "[0..<2] = [0, 1 :: nat]"
    by code_simp+
  have h1: "reaches_exchange spaced_os connected_client"
    by (simp add: run_defs loop_defs)
  have h2: "sendall_raises spaced_os = None"
    by (simp add: run_defs loop_defs)
  have h3: "keeps_reading (recv_results spaced_os) 0 \<and> keeps_reading (recv_results spaced_os) 1
            \<and> stops_reading (recv_results spaced_os) 2"
    by (simp add: run_defs loop_defs lit_def upt3 upt2)
  have h4: "utf8_decode (example_lib [PDict []]) (buffer_after (recv_results spaced_os) 3)
              = Inr (lit '' '' @ lit ''{}'' @ lit '' '')"
    by (simp add: run_defs loop_defs lit_def upt3 upt2)
  have h5: "strips_to (lit '' '') (lit ''{}'') (lit '' '')"
    by (simp add: run_defs loop_defs lit_def)
  have g1: "reaches_exchange unparsable_os connected_client"
    by (simp add: run_defs loop_defs)
  have g2: "sendall_raises unparsable_os = None"
    by (simp add: run_defs loop_defs)
  have g3: "(\<forall>j<1. keeps_reading (recv_results unparsable_os) j)
            \<and> stops_reading (recv_results unparsable_os) 1"
    by (simp add: run_defs loop_defs lit_def upt3 upt2)
  have g4: "utf8_decode (example_lib []) (buffer_after (recv_results unparsable_os) (Suc 1))
              = Inr (lit '' '' @ lit ''oops'' @ []) \<and> strips_to (lit '' '') (lit ''oops'') []"
    by (simp add: run_defs loop_defs lit_def upt3 upt2)
  have g5: "json_loads (example_lib []) (lit ''oops'')
              = Inl (JSONDecodeError (lit ''Expecting value: line 1 column 1 (char 0)''))"
    by (simp add: run_defs json_defs)
  note read_loop_and_parse[OF g1 g2, where k = 1 and lib = "example_lib []"
      and command = "lit ''get_status''" and args = None,
      THEN conjunct2, THEN mp, OF g3, THEN conjunct2, THEN spec, THEN spec, THEN spec,
      THEN mp, OF g4]
  with g5 have r: "map_option result_of
       (send_command (example_lib []) unparsable_os connected_client (lit ''get_status'') None)
     = Some (Inr (PDict [(lit ''success'', PBool False),
                         (lit ''error'',
                          PStr (lit ''Expecting value: line 1 column 1 (char 0)''))]))"
    by (auto simp: result_of_def)
  show ?thesis
    using h1 h2 h3 h4 h5 g1 g2 g3 g4 r
    by (simp add: run_defs loop_defs json_defs upt3 upt2)
qed

text \<open>
  C7: \<open>connect\<close> never lets an exception out: it always returns a boolean, the boolean says
  whether every step of opening the transport succeeded, and when it is false the client
  has no connection. When it is true the client holds a socket with a timeout of 10,
  connected to the configured endpoint.
\<close>

theorem connect_returns_bool:
  "\<exists>c' t b. connect os c = (c', t, Inr b)
      \<and> (b \<longleftrightarrow> socket_raises os = None \<and> settimeout_raises os = None
                \<and> connect_raises os = None)
      \<and> (\<not> b \<longrightarrow> sock c' = None)
      \<and> (b \<longrightarrow> sock c' = Some \<lparr>timeout = Some 10, peer = Some (host c, port c)\<rparr>)"
  by (auto simp: connect_def connect_try_def Let_def split: option.splits)

theorem connect_returns_bool_witness:
  "connect refusing_os (init_client\<lparr>sock := Some new_socket\<rparr>)
     = (init_client, [EvSocket, EvSettimeout 10, EvConnect RECLASS_HOST RECLASS_PORT],
        Inr False)
   \<and> connect (peer_os []) init_client
     = (connected_client, [EvSocket, EvSettimeout 10, EvConnect RECLASS_HOST RECLASS_PORT],
        Inr True)"
  using connect_returns_bool[of refusing_os "init_client\<lparr>sock := Some new_socket\<rparr>"]
    connect_returns_bool[of "peer_os []" init_client]
  by (simp add: run_defs)

text \<open>
  C9: from any state of the client, and whatever \<open>close\<close> does, two calls of \<open>disconnect\<close>
  in a row both return normally and both leave the client without a connection; the second
  call changes nothing and touches no socket.
\<close>

theorem disconnect_twice:
  "\<exists>c1 t1. disconnect os1 c = (c1, t1, Inr ()) \<and> sock c1 = None
      \<and> disconnect os2 c1 = (c1, [], Inr ())"
  by (auto simp: disconnect_def split: option.splits)

theorem disconnect_twice_witness:
  "disconnect broken_pipe_os connected_client = (init_client, [EvClose], Inr ())
   \<and> disconnect broken_pipe_os init_client = (init_client, [], Inr ())"
  using disconnect_twice[of broken_pipe_os connected_client broken_pipe_os]
  by (simp add: broken_pipe_os_def run_defs)

section \<open>Tool dispatch\<close>

text \<open>
  C2, at the inputs where the code departs from it: \<open>RenameNode\<close>, \<open>SetComment\<close> and
  \<open>ChangeNodeType\<close> called with the integer \<open>node_index = 3\<close> put the JSON number \<open>3\<close> on
  the wire, not the string \<open>"3"\<close>; \<open>ReadMemory\<close> called with the integer \<open>size = 16\<close> does
  send the string \<open>"16"\<close>.
\<close>

theorem node_index_sent_as_number:
  \<open>map_option (sent \<circ> trace_of)
     (call_tool (example_lib [ok_response]) (peer_os [Received (line_of ok_response)])
        init_client (lit ''RenameNode'')
        [lit ''class_id'' \<mapsto> PStr (lit ''Player''), lit ''node_index'' \<mapsto> PInt 3,
         lit ''name'' \<mapsto> PStr (lit ''health'')])
     = Some [map of_nat (lit ''{"command": "rename_node", "args": {"class_id": "Player", "node_index": 3, "name": "health"}}'') @ [0x0A]]
   \<and> map_option (sent \<circ> trace_of)
     (call_tool (example_lib [ok_response]) (peer_os [Received (line_of ok_response)])
        init_client (lit ''SetComment'')
        [lit ''class_id'' \<mapsto> PStr (lit ''Player''), lit ''node_index'' \<mapsto> PInt 3,
         lit ''comment'' \<mapsto> PStr (lit ''hp'')])
     = Some [map of_nat (lit ''{"command": "set_comment", "args": {"class_id": "Player", "node_index": 3, "comment": "hp"}}'') @ [0x0A]]
   \<and> map_option (sent \<circ> trace_of)
     (call_tool (example_lib [ok_response]) (peer_os [Received (line_of ok_response)])
        init_client (lit ''ChangeNodeType'')
        [lit ''class_id'' \<mapsto> PStr (lit ''Player''), lit ''node_index'' \<mapsto> PInt 3,
         lit ''type'' \<mapsto> PStr (lit ''int32'')])
     = Some [map of_nat (lit ''{"command": "change_node_type", "args": {"class_id": "Player", "node_index": 3, "type": "int32"}}'') @ [0x0A]]
   \<and> map_option (sent \<circ> trace_of)
     (call_tool (example_lib [ok_response]) (peer_os [Received (line_of ok_response)])
        init_client (lit ''ReadMemory'')
        [lit ''address'' \<mapsto> PStr (lit ''0x1000''), lit ''size'' \<mapsto> PInt 16])
     = Some [map of_nat (lit ''{"command": "read_memory", "args": {"address": "0x1000", "size": "16"}}'') @ [0x0A]]\<close>
  by (simp add: run_defs json_defs)

text \<open>
  C6, as the code has it: when the response to \<open>ping\<close> is a JSON object, \<open>IsConnected\<close>
  renders \<open>Connected to ReClass.NET plugin\<close> if the object's \<open>success\<close> field is truthy
  (\<open>true\<close>, a non-zero number, a non-empty string, list or object), and otherwise
  \<open>Not connected: \<close> followed by \<open>str\<close> of the \<open>error\<close> field, with \<open>Unknown error\<close> in its
  place when the field is absent.
\<close>

theorem is_connected_rendering:
  assumes "send_command lib os c (lit ''ping'') None = Some (c', t, Inr (PDict kvs))"
  shows "call_tool lib os c (lit ''IsConnected'') arguments =
           Some (c', t, Inr [text_content
             (if py_truthy (case map_of kvs (lit ''success'') of None \<Rightarrow> PNone | Some s \<Rightarrow> s)
              then lit ''Connected to ReClass.NET plugin''
              else lit ''Not connected: ''
                   @ py_str (container_str lib)
                       (case map_of kvs (lit ''error'') of
                          None \<Rightarrow> PStr (lit ''Unknown error'') | Some e \<Rightarrow> e))])"
  using assms by (simp add: call_tool_def)

theorem is_connected_rendering_witness:
  "send_command (example_lib [PDict [(lit ''success'', PBool False)]])
     (peer_os [Received (line_of (PDict [(lit ''success'', PBool False)]))])
     connected_client (lit ''ping'') None
     = Some (connected_client,
             [EvSendall (line_of (request (lit ''ping'') None)), EvRecv 4096],
             Inr (PDict [(lit ''success'', PBool False)]))
   \<and> call_tool (example_lib [PDict [(lit ''success'', PBool False)]])
       (peer_os [Received (line_of (PDict [(lit ''success'', PBool False)]))])
       connected_client (lit ''IsConnected'') Map.empty
     = Some (connected_client,
             [EvSendall (line_of (request (lit ''ping'') None)), EvRecv 4096],
             Inr [text_content (lit ''Not connected: Unknown error'')])
   \<and> map_option result_of
       (call_tool (example_lib [ok_response]) (peer_os [Received (line_of ok_response)])
          connected_client (lit ''IsConnected'') Map.empty)
     = Some (Inr [text_content (lit ''Connected to ReClass.NET plugin'')])
   \<and> map_option result_of
       (call_tool (example_lib []) refusing_os init_client (lit ''IsConnected'') Map.empty)
     = Some (Inr [text_content (lit ''Not connected: Failed to connect to ReClass.NET plugin'')])"
proof -
  have h: "send_command (example_lib [PDict [(lit ''success'', PBool False)]])
     (peer_os [Received (line_of (PDict [(lit ''success'', PBool False)]))])
     connected_client (lit ''ping'') None
     = Some (connected_client,
             [EvSendall (line_of (request (lit ''ping'') None)), EvRecv 4096],
             Inr (PDict [(lit ''success'', PBool False)]))"
    by (simp add: run_defs json_defs)
  show ?thesis
    using h is_connected_rendering[OF h, of Map.empty]
    by (simp add: run_defs json_defs)
qed

text \<open>
  The claim as stated fails at two responses a peer can send. The response
  \<open>{"success": 1}\<close> has a \<open>success\<close> field that is not \<open>true\<close>, and the success string is
  rendered, not the failure string. The response \<open>[]\<close> is no object: \<open>call_tool\<close> raises
  \<open>AttributeError\<close> and renders nothing.
\<close>

theorem is_connected_counterexample:
  "map_option result_of
     (call_tool (example_lib [PDict [(lit ''success'', PInt 1)]])
        (peer_os [Received (line_of (PDict [(lit ''success'', PInt 1)]))])
        init_client (lit ''IsConnected'') Map.empty)
     = Some (Inr [text_content (lit ''Connected to ReClass.NET plugin'')])
   \<and> PInt 1 \<noteq> PBool True
   \<and> map_option result_of
     (call_tool (example_lib [PList []]) (peer_os [Received (line_of (PList []))])
        init_client (lit ''IsConnected'') Map.empty)
     = Some (Inl (AttributeError (lit [CHR 0x27] @ lit ''list'' @ lit [CHR 0x27]
               @ lit '' object has no attribute '' @ lit [CHR 0x27] @ lit ''get''
               @ lit [CHR 0x27])))"
  by (simp add: run_defs json_defs)

text \<open>
  C8: a \<open>CreateClass\<close> call that supplies \<open>name\<close> relays the command \<open>create_class\<close> with the
  argument mapping \<open>{"name": name}\<close> alone when no \<open>address\<close> argument is present, and with
  \<open>{"name": name, "address": address}\<close> when one is; the result is dumped as usual.
\<close>

theorem create_class_args:
  assumes "arguments (lit ''name'') = Some n"
  shows "call_tool lib os c (lit ''CreateClass'') arguments
           = dump_result (send_command lib os c (lit ''create_class'')
               (Some (case arguments (lit ''address'') of
                        None \<Rightarrow> [(lit ''name'', n)]
                      | Some a \<Rightarrow> [(lit ''name'', n), (lit ''address'', a)])))"
  using assms by (simp add: call_tool_def relay_def subscript_def split: option.splits)

theorem create_class_args_witness:
  \<open>[lit ''name'' \<mapsto> PStr (lit ''Player'')] (lit ''name'') = Some (PStr (lit ''Player''))
   \<and> map_option (sent \<circ> trace_of)
       (call_tool (example_lib [ok_response]) (peer_os [Received (line_of ok_response)])
          init_client (lit ''CreateClass'') [lit ''name'' \<mapsto> PStr (lit ''Player'')])
     = Some [map of_nat (lit ''{"command": "create_class", "args": {"name": "Player"}}'')
             @ [0x0A]]
   \<and> map_option (sent \<circ> trace_of)
       (call_tool (example_lib [ok_response]) (peer_os [Received (line_of ok_response)])
          init_client (lit ''CreateClass'')
          [lit ''name'' \<mapsto> PStr (lit ''Player''), lit ''address'' \<mapsto> PStr (lit ''0x1000'')])
     = Some [map of_nat
               (lit ''{"command": "create_class", "args": {"name": "Player", "address": "0x1000"}}'')
             @ [0x0A]]\<close>
proof -
  have h: "[lit ''name'' \<mapsto> PStr (lit ''Player'')] (lit ''name'') = Some (PStr (lit ''Player''))"
    by simp
  show ?thesis
    using h
      create_class_args[of "[lit ''name'' \<mapsto> PStr (lit ''Player'')]" "PStr (lit ''Player'')"
        "example_lib [ok_response]" "peer_os [Received (line_of ok_response)]" init_client,
        OF h]
    by (simp add: run_defs json_defs)
qed

text \<open>
  C10: for a name that is none of the sixteen declared tool names, \<open>call_tool\<close> returns the
  single text item \<open>Unknown tool: \<close> followed by the name; the client is unchanged and the
  trace is empty, so nothing was exchanged with the peer.
\<close>

theorem unknown_tool:
  assumes "name \<notin> set tool_names"
  shows "call_tool lib os c name arguments
           = Some (c, [], Inr [text_content (lit ''Unknown tool: '' @ name)])"
  using assms by (simp add: tool_names_def list_tools_def call_tool_def)

theorem unknown_tool_witness:
  "lit ''Shutdown'' \<notin> set tool_names
   \<and> call_tool (example_lib []) (peer_os []) connected_client (lit ''Shutdown'') Map.empty
     = Some (connected_client, [], Inr [text_content (lit ''Unknown tool: Shutdown'')])"
proof -
  have h: "lit ''Shutdown'' \<notin> set tool_names"
    by (simp add: tool_names_def list_tools_def)
  show ?thesis
    using h unknown_tool[OF h, of "example_lib []" "peer_os []" connected_client Map.empty]
    by (simp add: lit_def)
qed

end
